theory Spec2Isabelle
  imports Main
begin

section \<open>Strings and formatting\<close>

text \<open>
  \<^verbatim>\<open>strings.Join(elems, sep)\<close>: the elements with the separator between
  neighbours; the empty string for no element.
\<close>

fun strings_Join :: "string list \<Rightarrow> string \<Rightarrow> string" where
  "strings_Join [] sep = []"
| "strings_Join [x] sep = x"
| "strings_Join (x # y # ys) sep = x @ sep @ strings_Join (y # ys) sep"

text \<open>The decimal rendering that \<^verbatim>\<open>%d\<close> gives an integer.\<close>

definition digit_char :: "nat \<Rightarrow> char" where
  "digit_char d = ''0123456789'' ! d"

fun nat_dec :: "nat \<Rightarrow> string" where
  "nat_dec n = (if n < 10 then [digit_char n] else nat_dec (n div 10) @ [digit_char (n mod 10)])"

declare nat_dec.simps [simp del]

definition fmt_d :: "int \<Rightarrow> string" where
  "fmt_d i = (if i < 0 then CHR ''-'' # nat_dec (nat (- i)) else nat_dec (nat i))"

text \<open>
  The values a caller passes as \<^verbatim>\<open>interface{}\<close> to the filter operations, and
  what \<^verbatim>\<open>%v\<close> prints for them: a string as it is, an integer in decimal, a
  slice as its elements between square brackets, separated by one space.
\<close>

datatype go_value =
  VNil
  | VString string
  | VInt int
  | VBool bool
  | VSlice "go_value list"

fun fmt_v :: "go_value \<Rightarrow> string" where
  "fmt_v VNil = ''<nil>''"
| "fmt_v (VString s) = s"
| "fmt_v (VInt i) = fmt_d i"
| "fmt_v (VBool b) = (if b then ''true'' else ''false'')"
| "fmt_v (VSlice vs) = ''['' @ strings_Join (map fmt_v vs) '' '' @ '']''"

section \<open>The data model\<close>

text \<open>
  The client as \<^verbatim>\<open>NewClient\<close> fills it. A \<^verbatim>\<open>*Client\<close> that is nil is
  \<open>None\<close>.
\<close>

record client =
  baseURL :: string
  apiKey :: string

record join =
  foreignTable :: string
  localColumn :: string
  operator :: string
  foreignColumn :: string

text \<open>
  The builder. The header map is a Go map, whose zero value (nil) can be read and ranged
  over but not written: \<open>None\<close> is the nil map. The field \<^verbatim>\<open>method\<close> of the source is
  \<open>http_method\<close> here.
\<close>

record query_builder =
  table :: string
  selectQuery :: string
  filters :: "string list"
  orFilters :: "string list"
  andFilters :: "string list"
  notFilters :: "string list"
  orderQuery :: string
  limitQuery :: string
  offsetQuery :: string
  rangeQuery :: string
  countQuery :: string
  singleResult :: bool
  headers :: "(string \<rightharpoonup> string) option"
  joins :: "join list"
  rawQuery :: string
  http_method :: string
  client :: "client option"

datatype panic = NilMapAssignment | NilPointerDereference

section \<open>Constructors\<close>

definition NewQueryBuilder :: "string \<Rightarrow> query_builder" where
  "NewQueryBuilder t =
     \<lparr>table = t, selectQuery = [], filters = [], orFilters = [], andFilters = [],
      notFilters = [], orderQuery = [], limitQuery = [], offsetQuery = [], rangeQuery = [],
      countQuery = [], singleResult = False, headers = None, joins = [],
      rawQuery = [], http_method = [], client = None\<rparr>"

definition NewClient :: "string \<Rightarrow> string \<Rightarrow> client" where
  "NewClient b k = \<lparr>baseURL = b, apiKey = k\<rparr>"

definition From :: "client \<Rightarrow> string \<Rightarrow> query_builder" where
  "From c t = (let qb = NewQueryBuilder t in qb)"

section \<open>Configuration operations\<close>

definition Select :: "string list \<Rightarrow> query_builder \<Rightarrow> query_builder" where
  "Select columns q = q\<lparr>selectQuery := strings_Join columns '',''\<rparr>"

definition Where :: "string \<Rightarrow> string \<Rightarrow> go_value \<Rightarrow> query_builder \<Rightarrow> query_builder" where
  "Where column op v q = q\<lparr>filters := filters q @ [column @ ''.'' @ op @ ''.'' @ fmt_v v]\<rparr>"

definition OrWhere :: "string \<Rightarrow> string \<Rightarrow> go_value \<Rightarrow> query_builder \<Rightarrow> query_builder" where
  "OrWhere column op v q =
     q\<lparr>filters := filters q @ [''or('' @ column @ ''.'' @ op @ ''.'' @ fmt_v v @ '')'']\<rparr>"

definition WhereRaw :: "string \<Rightarrow> query_builder \<Rightarrow> query_builder" where
  "WhereRaw condition q = q\<lparr>filters := filters q @ [''and('' @ condition @ '')'']\<rparr>"

definition Order :: "string \<Rightarrow> string \<Rightarrow> query_builder \<Rightarrow> query_builder" where
  "Order column direction q = q\<lparr>orderQuery := ''order='' @ column @ ''.'' @ direction\<rparr>"

definition Limit :: "int \<Rightarrow> query_builder \<Rightarrow> query_builder" where
  "Limit n q = q\<lparr>limitQuery := ''limit='' @ fmt_d n\<rparr>"

definition Offset :: "int \<Rightarrow> query_builder \<Rightarrow> query_builder" where
  "Offset n q = q\<lparr>offsetQuery := ''offset='' @ fmt_d n\<rparr>"

definition Range_q :: "int \<Rightarrow> int \<Rightarrow> query_builder \<Rightarrow> query_builder" where
  "Range_q start end q = q\<lparr>rangeQuery := ''range='' @ fmt_d start @ ''-'' @ fmt_d end\<rparr>"

text \<open>\<^verbatim>\<open>q.headers[key] = value\<close>: a write to a nil map panics.\<close>

definition Header :: "string \<Rightarrow> string \<Rightarrow> query_builder \<Rightarrow> panic + query_builder" where
  "Header key v q =
     (case headers q of
        None \<Rightarrow> Inl NilMapAssignment
      | Some h \<Rightarrow> Inr (q\<lparr>headers := Some (h(key \<mapsto> v))\<rparr>))"

definition Join :: "string \<Rightarrow> string \<Rightarrow> string \<Rightarrow> string \<Rightarrow> query_builder \<Rightarrow> query_builder" where
  "Join ft lc op fc q =
     q\<lparr>joins := joins q @
        [\<lparr>foreignTable = ft, localColumn = lc, operator = op, foreignColumn = fc\<rparr>]\<rparr>"

definition InnerJoin :: "string \<Rightarrow> string \<Rightarrow> string \<Rightarrow> query_builder \<Rightarrow> query_builder" where
  "InnerJoin ft lc fc q = Join ft lc ''eq'' fc q"

definition LeftJoin :: "string \<Rightarrow> string \<Rightarrow> string \<Rightarrow> query_builder \<Rightarrow> panic + query_builder" where
  "LeftJoin ft lc fc q = Header ''Prefer'' ''missing=null'' (Join ft lc ''eq'' fc q)"

definition Raw :: "string \<Rightarrow> query_builder \<Rightarrow> query_builder" where
  "Raw query q = q\<lparr>rawQuery := query\<rparr>"

definition Count :: "query_builder \<Rightarrow> query_builder" where
  "Count q = q\<lparr>countQuery := ''count=exact''\<rparr>"

definition Single :: "query_builder \<Rightarrow> query_builder" where
  "Single q = q\<lparr>singleResult := True\<rparr>"

definition Filter :: "string \<Rightarrow> string \<Rightarrow> go_value \<Rightarrow> query_builder \<Rightarrow> query_builder" where
  "Filter column op v q = Where column op v q"

definition Or :: "string list \<Rightarrow> query_builder \<Rightarrow> query_builder" where
  "Or fs q =
     (if length fs > 0
      then q\<lparr>orFilters := orFilters q @ [''or=('' @ strings_Join fs '','' @ '')'']\<rparr>
      else q)"

definition And :: "string list \<Rightarrow> query_builder \<Rightarrow> query_builder" where
  "And fs q =
     (if length fs > 0
      then q\<lparr>andFilters := andFilters q @ [''and=('' @ strings_Join fs '','' @ '')'']\<rparr>
      else q)"

definition Not_q :: "string \<Rightarrow> string \<Rightarrow> go_value \<Rightarrow> query_builder \<Rightarrow> query_builder" where
  "Not_q column op v q =
     q\<lparr>notFilters := notFilters q @ [''not.'' @ column @ ''='' @ op @ ''.'' @ fmt_v v]\<rparr>"

definition ForeignTable :: "string \<Rightarrow> query_builder \<Rightarrow> query_builder" where
  "ForeignTable ft q = NewQueryBuilder (table q @ ''.'' @ ft)"

section \<open>BuildURL\<close>

definition BuildURL :: "query_builder \<Rightarrow> string" where
  "BuildURL q =
     (let url = ''/'' @ table q;
          params = [];
          params = (if selectQuery q \<noteq> [] then params @ [selectQuery q] else params);
          params = foldl (\<lambda>ps f. ps @ [f]) params (filters q);
          params = (if orderQuery q \<noteq> [] then params @ [orderQuery q] else params);
          params = (if limitQuery q \<noteq> [] then params @ [limitQuery q] else params);
          params = (if offsetQuery q \<noteq> [] then params @ [offsetQuery q] else params);
          params = (if countQuery q \<noteq> [] then params @ [countQuery q] else params)
      in if length params > 0 then url @ ''?'' @ strings_Join params ''&'' else url)"

section \<open>Requests, responses and the collaborators\<close>

text \<open>
  The body handed to the HTTP client is the caller's value or, for a raw query, the
  \<^verbatim>\<open>sqlRequest\<close> struct that \<^verbatim>\<open>execute\<close> builds. \<open>None\<close> is the nil
  interface.
\<close>

datatype 'd payload = Caller 'd | SqlRequest string

type_synonym url_Values = "string \<rightharpoonup> string list"

record 'd request =
  req_headers :: "string \<rightharpoonup> string"
  req_query :: url_Values
  req_body :: "'d payload option"

record response =
  resp_is_error :: bool
  resp_body :: string
  resp_string :: string

text \<open>One network round trip: the verb called on the request, the URL and the request.\<close>

record 'd http_call =
  call_method :: string
  call_url :: string
  call_req :: "'d request"

datatype error = TransportError string | Errorf string | JsonError string

text \<open>
  The collaborators outside the repository's query builder, taken as parameters:
  \<^item> the request factory of the client;
  \<^item> the transport (a transport error or a response);
  \<^item> the JSON decoder into a caller's destination (an error or none, and the destination
    after the call);
  \<^item> the syntax check that the JSON decoder makes on a body before it looks at the
    destination (the error for a body that is not JSON);
  \<^item> the canonical name under which the HTTP client stores a header key;
  \<^item> the entries of a header map in the order in which a \<^verbatim>\<open>range\<close> statement visits
    them, an order the language leaves open.
\<close>

record 'd env =
  RawRequest :: "client \<Rightarrow> 'd request"
  transport :: "'d http_call \<Rightarrow> string + response"
  Unmarshal :: "string \<Rightarrow> 'd \<Rightarrow> error option \<times> 'd"
  checkValid :: "string \<Rightarrow> error option"
  CanonicalKey :: "string \<Rightarrow> string"
  range_entries :: "(string \<rightharpoonup> string) \<Rightarrow> (string \<times> string) list"

text \<open>
  Modelled from the spec: \<^verbatim>\<open>Client.GetBaseURL\<close> is not among the sources; the
  client "holds a base URL" that is stored verbatim, and the endpoints are built under it.
\<close>

definition GetBaseURL :: "client \<Rightarrow> string" where
  "GetBaseURL c = baseURL c"

text \<open>
  \<^verbatim>\<open>req.SetHeader(k, v)\<close>: the value replaces what the request holds under the
  canonical name of the key.
\<close>

definition SetHeader :: "'d env \<Rightarrow> string \<Rightarrow> string \<Rightarrow> 'd request \<Rightarrow> 'd request" where
  "SetHeader env k v r = r\<lparr>req_headers := (req_headers r)(CanonicalKey env k \<mapsto> v)\<rparr>"

definition SetBody :: "'d payload option \<Rightarrow> 'd request \<Rightarrow> 'd request" where
  "SetBody b r = r\<lparr>req_body := b\<rparr>"

definition values_Set :: "string \<Rightarrow> string \<Rightarrow> url_Values \<Rightarrow> url_Values" where
  "values_Set k v m = m(k \<mapsto> [v])"

definition values_Add :: "string \<Rightarrow> string \<Rightarrow> url_Values \<Rightarrow> url_Values" where
  "values_Add k v m = m(k \<mapsto> (case m k of None \<Rightarrow> [] | Some vs \<Rightarrow> vs) @ [v])"

text \<open>Every value of every key is added to the request's own query parameters.\<close>

definition SetQueryParamsFromValues :: "url_Values \<Rightarrow> 'd request \<Rightarrow> 'd request" where
  "SetQueryParamsFromValues params r =
     r\<lparr>req_query := (\<lambda>k. case params k of
                          None \<Rightarrow> req_query r k
                        | Some vs \<Rightarrow> Some ((case req_query r k of None \<Rightarrow> [] | Some old \<Rightarrow> old) @ vs))\<rparr>"

text \<open>
  \<^verbatim>\<open>for k, v := range q.headers { req.SetHeader(k, v) }\<close>: one
  \<^verbatim>\<open>SetHeader\<close> for each entry, in the order of the iteration (two keys with one
  canonical name leave the value of the later one); over the nil map the loop does
  nothing.
\<close>

definition set_custom_headers ::
  "'d env \<Rightarrow> (string \<rightharpoonup> string) option \<Rightarrow> 'd request \<Rightarrow> 'd request" where
  "set_custom_headers env hs r =
     (case hs of
        None \<Rightarrow> r
      | Some h \<Rightarrow> foldl (\<lambda>req (k, v). SetHeader env k v req) r (range_entries env h))"

text \<open>
  \<^verbatim>\<open>json.Unmarshal(resp.Body(), data)\<close>. The \<^verbatim>\<open>sqlRequest\<close> of a raw query is a
  struct value, not a pointer: the decoder returns the syntax error of a body that is not
  JSON, and refuses the destination otherwise.
\<close>

definition json_Unmarshal :: "'d env \<Rightarrow> string \<Rightarrow> 'd payload \<Rightarrow> error option \<times> 'd payload" where
  "json_Unmarshal env body p =
     (case p of
        Caller d \<Rightarrow> (case Unmarshal env body d of (e, d') \<Rightarrow> (e, Caller d'))
      | SqlRequest s \<Rightarrow>
          (case checkValid env body of
             Some err \<Rightarrow> (Some err, SqlRequest s)
           | None \<Rightarrow>
               (Some (JsonError ''json: Unmarshal(non-pointer supabaseorm.sqlRequest)''),
                SqlRequest s)))"

section \<open>The terminal operations\<close>

text \<open>
  What a terminal operation leaves behind: the error it returns, the caller's value after
  the call, the round trips made, and the builder (whose method a raw query overwrites).
\<close>

record 'd exec_result =
  res_err :: "error option"
  res_dest :: "'d option"
  res_calls :: "'d http_call list"
  res_builder :: query_builder

text \<open>The query parameters of a query that is not raw (the \<^verbatim>\<open>url.Values\<close> of \<^verbatim>\<open>execute\<close>).\<close>

definition queryParams :: "query_builder \<Rightarrow> url_Values" where
  "queryParams q =
     (let queryParams = Map.empty;
          queryParams = (if selectQuery q \<noteq> [] then values_Set ''select'' (selectQuery q) queryParams
                         else queryParams);
          queryParams =
            (if length (joins q) > 0
             then (let joinSelects = map (\<lambda>j. foreignTable j @ ''(*)'') (joins q)
                   in if selectQuery q \<noteq> []
                      then values_Set ''select''
                             (selectQuery q @ '','' @ strings_Join joinSelects '','') queryParams
                      else values_Set ''select'' (''*,'' @ strings_Join joinSelects '','') queryParams)
             else queryParams);
          queryParams = foldl (\<lambda>qp f. values_Add ''and'' f qp) queryParams (filters q);
          queryParams = (if orderQuery q \<noteq> [] then values_Set ''order'' (orderQuery q) queryParams
                         else queryParams);
          queryParams = (if limitQuery q \<noteq> [] then values_Set ''limit'' (limitQuery q) queryParams
                         else queryParams);
          queryParams = (if offsetQuery q \<noteq> [] then values_Set ''offset'' (offsetQuery q) queryParams
                         else queryParams)
      in queryParams)"

text \<open>The caller's value after the call: the raw query's own struct is not the caller's.\<close>

definition caller_value :: "'d option \<Rightarrow> 'd payload \<Rightarrow> 'd option" where
  "caller_value result p = (case p of Caller d \<Rightarrow> Some d | SqlRequest s \<Rightarrow> result)"

text \<open>\<^verbatim>\<open>return json.Unmarshal(resp.Body(), data)\<close>, with the round trip already made.\<close>

definition unmarshal_response ::
  "'d env \<Rightarrow> query_builder \<Rightarrow> 'd option \<Rightarrow> 'd payload option \<Rightarrow> 'd http_call \<Rightarrow> response
     \<Rightarrow> 'd exec_result" where
  "unmarshal_response env q result data call resp =
     (case data of
        None \<Rightarrow> \<lparr>res_err = None, res_dest = result, res_calls = [call], res_builder = q\<rparr>
      | Some p \<Rightarrow>
          (case json_Unmarshal env (resp_body resp) p of
             (e, p') \<Rightarrow> \<lparr>res_err = e, res_dest = caller_value result p',
                         res_calls = [call], res_builder = q\<rparr>))"

text \<open>The part of \<^verbatim>\<open>execute\<close> after the dispatch: the checks on the answer and the decoding.\<close>

definition respond ::
  "'d env \<Rightarrow> query_builder \<Rightarrow> 'd option \<Rightarrow> 'd payload option \<Rightarrow> 'd http_call \<Rightarrow> 'd exec_result" where
  "respond env q result data call =
     (case transport env call of
        Inl err \<Rightarrow>
          \<lparr>res_err = Some (TransportError err), res_dest = result, res_calls = [call], res_builder = q\<rparr>
      | Inr resp \<Rightarrow>
          if resp_is_error resp
          then \<lparr>res_err = Some (Errorf (''API error: '' @ resp_string resp)), res_dest = result,
                res_calls = [call], res_builder = q\<rparr>
          else if http_method q = ''GET'' \<and> data \<noteq> None
          then unmarshal_response env q result data call resp
          else if http_method q = ''POST'' \<and> data \<noteq> None
          then unmarshal_response env q result data call resp
          else \<lparr>res_err = None, res_dest = result, res_calls = [call], res_builder = q\<rparr>)"

text \<open>
  \<^verbatim>\<open>execute\<close>. Its first step calls a method of \<^verbatim>\<open>q.client\<close>: with a nil client
  the call panics.
\<close>

definition execute :: "'d env \<Rightarrow> query_builder \<Rightarrow> 'd option \<Rightarrow> panic + 'd exec_result" where
  "execute env q0 result =
     (case client q0 of
        None \<Rightarrow> Inl NilPointerDereference
      | Some c \<Rightarrow>
          (let data = map_option Caller result;
               endpoint = (if rawQuery q0 \<noteq> []
                           then GetBaseURL c @ ''/rest/v1/rpc/execute_sql''
                           else GetBaseURL c @ ''/rest/v1/'' @ table q0);
               q = (if rawQuery q0 \<noteq> [] then q0\<lparr>http_method := ''POST''\<rparr> else q0);
               data = (if rawQuery q0 \<noteq> [] then Some (SqlRequest (rawQuery q0)) else data);
               req = RawRequest env c;
               req = set_custom_headers env (headers q) req;
               req = (if rawQuery q = []
                      then (let req = (if rangeQuery q \<noteq> [] then SetHeader env ''Range'' (rangeQuery q) req
                                       else req)
                            in SetQueryParamsFromValues (queryParams q) req)
                      else req)
           in if http_method q = ''GET''
              then Inr (respond env q result data
                     \<lparr>call_method = ''GET'', call_url = endpoint, call_req = req\<rparr>)
              else if http_method q = ''POST''
              then Inr (respond env q result data
                     \<lparr>call_method = ''POST'', call_url = endpoint, call_req = SetBody data req\<rparr>)
              else if http_method q = ''PATCH''
              then Inr (respond env q result data
                     \<lparr>call_method = ''PATCH'', call_url = endpoint, call_req = SetBody data req\<rparr>)
              else if http_method q = ''DELETE''
              then Inr (respond env q result data
                     \<lparr>call_method = ''DELETE'', call_url = endpoint, call_req = req\<rparr>)
              else Inr \<lparr>res_err = Some (Errorf (''unsupported HTTP method: '' @ http_method q)),
                        res_dest = result, res_calls = [], res_builder = q\<rparr>))"

definition Get :: "'d env \<Rightarrow> query_builder \<Rightarrow> 'd option \<Rightarrow> panic + 'd exec_result" where
  "Get env q result = execute env q result"

definition First :: "'d env \<Rightarrow> query_builder \<Rightarrow> 'd option \<Rightarrow> panic + 'd exec_result" where
  "First env q result = execute env (Limit 1 q) result"

definition Insert :: "'d env \<Rightarrow> query_builder \<Rightarrow> 'd option \<Rightarrow> panic + 'd exec_result" where
  "Insert env q data = execute env (q\<lparr>http_method := ''POST''\<rparr>) data"

definition Update :: "'d env \<Rightarrow> query_builder \<Rightarrow> 'd option \<Rightarrow> panic + 'd exec_result" where
  "Update env q data = execute env (q\<lparr>http_method := ''PATCH''\<rparr>) data"

definition Delete :: "'d env \<Rightarrow> query_builder \<Rightarrow> panic + 'd exec_result" where
  "Delete env q = execute env (q\<lparr>http_method := ''DELETE''\<rparr>) None"

text \<open>\<^verbatim>\<open>Execute\<close> returns nil at once.\<close>

definition Execute :: "'d env \<Rightarrow> query_builder \<Rightarrow> 'd option \<Rightarrow> panic + 'd exec_result" where
  "Execute env q result =
     Inr \<lparr>res_err = None, res_dest = result, res_calls = [], res_builder = q\<rparr>"

text \<open>
  \<^verbatim>\<open>Client.RPC\<close> returns nil at once: the error, the result destination after the
  call and the round trips made.
\<close>

definition RPC ::
  "'d env \<Rightarrow> client \<Rightarrow> string \<Rightarrow> (string \<rightharpoonup> go_value) \<Rightarrow> 'd option
     \<Rightarrow> error option \<times> 'd option \<times> 'd http_call list" where
  "RPC env c procedure params result = (None, result, [])"

section \<open>Observations and reference definitions\<close>

text \<open>The round trips of a terminal operation, or the panic that ended it.\<close>

definition calls_of :: "panic + 'd exec_result \<Rightarrow> panic + 'd http_call list" where
  "calls_of out = (case out of Inl p \<Rightarrow> Inl p | Inr r \<Rightarrow> Inr (res_calls r))"

text \<open>
  The round trip expected of a raw query: a POST to the fixed \<^verbatim>\<open>rpc/execute_sql\<close>
  endpoint under the base URL, with the body \<^verbatim>\<open>{"query": <raw text>}\<close>, on the
  client's fresh request with the custom headers and nothing else of the builder.
\<close>

definition raw_call :: "'d env \<Rightarrow> query_builder \<Rightarrow> client \<Rightarrow> 'd http_call" where
  "raw_call env q c =
     \<lparr>call_method = ''POST'',
      call_url = baseURL c @ ''/rest/v1/rpc/execute_sql'',
      call_req = SetBody (Some (SqlRequest (rawQuery q)))
                   (set_custom_headers env (headers q) (RawRequest env c))\<rparr>"

text \<open>
  \<^verbatim>\<open>BuildURL\<close> as the specification words it: the fragments in their fixed order,
  the empty ones left out, joined by \<open>&\<close> behind a \<open>?\<close> when any is left.
\<close>

definition fragments :: "query_builder \<Rightarrow> string list" where
  "fragments q =
     [selectQuery q] @ filters q @ [orderQuery q, limitQuery q, offsetQuery q, countQuery q]"

definition BuildURL_spec :: "query_builder \<Rightarrow> string" where
  "BuildURL_spec q =
     (let nonempty = filter (\<lambda>f. f \<noteq> []) (fragments q)
      in ''/'' @ table q @ (if nonempty = [] then [] else ''?'' @ strings_Join nonempty ''&''))"

text \<open>
  The builder states that the constructors and the configuration operations produce. An
  operation that panics produces none.
\<close>

inductive accumulated :: "query_builder \<Rightarrow> bool" where
  acc_NewQueryBuilder: "accumulated (NewQueryBuilder t)"
| acc_From: "accumulated (From c t)"
| acc_Select: "accumulated q \<Longrightarrow> accumulated (Select columns q)"
| acc_Where: "accumulated q \<Longrightarrow> accumulated (Where column op v q)"
| acc_OrWhere: "accumulated q \<Longrightarrow> accumulated (OrWhere column op v q)"
| acc_WhereRaw: "accumulated q \<Longrightarrow> accumulated (WhereRaw condition q)"
| acc_Order: "accumulated q \<Longrightarrow> accumulated (Order column direction q)"
| acc_Limit: "accumulated q \<Longrightarrow> accumulated (Limit n q)"
| acc_Offset: "accumulated q \<Longrightarrow> accumulated (Offset n q)"
| acc_Range: "accumulated q \<Longrightarrow> accumulated (Range_q a b q)"
| acc_Header: "accumulated q \<Longrightarrow> Header key v q = Inr q' \<Longrightarrow> accumulated q'"
| acc_Join: "accumulated q \<Longrightarrow> accumulated (Join ft lc op fc q)"
| acc_InnerJoin: "accumulated q \<Longrightarrow> accumulated (InnerJoin ft lc fc q)"
| acc_LeftJoin: "accumulated q \<Longrightarrow> LeftJoin ft lc fc q = Inr q' \<Longrightarrow> accumulated q'"
| acc_Raw: "accumulated q \<Longrightarrow> accumulated (Raw query q)"
| acc_Count: "accumulated q \<Longrightarrow> accumulated (Count q)"
| acc_Single: "accumulated q \<Longrightarrow> accumulated (Single q)"
| acc_Filter: "accumulated q \<Longrightarrow> accumulated (Filter column op v q)"
| acc_Or: "accumulated q \<Longrightarrow> accumulated (Or fs q)"
| acc_And: "accumulated q \<Longrightarrow> accumulated (And fs q)"
| acc_Not: "accumulated q \<Longrightarrow> accumulated (Not_q column op v q)"
| acc_ForeignTable: "accumulated q \<Longrightarrow> accumulated (ForeignTable ft q)"

section \<open>Grouped filters\<close>

text \<open>
  C10. \<^verbatim>\<open>Or\<close> and \<^verbatim>\<open>And\<close> with no filter leave the builder as it is; with
  filters \<open>f1..fn\<close> they append the one string \<open>or=(f1,...,fn)\<close> (or \<open>and=(f1,...,fn)\<close>)
  to their own collection and change no other field.
\<close>

theorem Or_And_frame:
  "Or [] q = q \<and> And [] q = q \<and>
   (fs \<noteq> [] \<longrightarrow>
      Or fs q = q\<lparr>orFilters := orFilters q @ [''or=('' @ strings_Join fs '','' @ '')'']\<rparr> \<and>
      And fs q = q\<lparr>andFilters := andFilters q @ [''and=('' @ strings_Join fs '','' @ '')'']\<rparr>)"
  by (simp add: Or_def And_def)

theorem Or_And_frame_witness:
  "Or [] (NewQueryBuilder ''users'') = NewQueryBuilder ''users'' \<and>
   And [] (NewQueryBuilder ''users'') = NewQueryBuilder ''users'' \<and>
   [''name=eq.John'', ''name=eq.Jane''] \<noteq> [] \<and>
   orFilters (Or [''name=eq.John'', ''name=eq.Jane''] (NewQueryBuilder ''users''))
     = [''or=(name=eq.John,name=eq.Jane)''] \<and>
   andFilters (And [''name=eq.John'', ''name=eq.Jane''] (NewQueryBuilder ''users''))
     = [''and=(name=eq.John,name=eq.Jane)'']"
  using Or_And_frame [of "NewQueryBuilder ''users''" "[''name=eq.John'', ''name=eq.Jane'']"]
  by (simp add: NewQueryBuilder_def)

section \<open>Constructors and headers\<close>

text \<open>
  C5. \<^verbatim>\<open>Client.From(table)\<close> makes no network call and returns a builder whose table
  is the given name and whose client reference is the client it was called on. The code
  returns what \<^verbatim>\<open>NewQueryBuilder\<close> returns: the table is set, the client
  reference is nil.
\<close>

theorem From_client_unbound:
  "table (From (NewClient b k) t) = t \<and> client (From (NewClient b k) t) = None"
  by (simp add: From_def NewQueryBuilder_def)

text \<open>
  C4. \<^verbatim>\<open>Header(key, value)\<close> on a builder from \<^verbatim>\<open>NewQueryBuilder\<close> or
  \<^verbatim>\<open>Client.From\<close> completes and sets that one entry. Neither constructor makes
  the header map, so the write is to a nil map and panics.
\<close>

theorem Header_nil_map:
  "Header key v (NewQueryBuilder t) = Inl NilMapAssignment \<and>
   Header key v (From c t) = Inl NilMapAssignment"
  by (simp add: Header_def From_def NewQueryBuilder_def)

lemma LeftJoin_nil_map: "LeftJoin ft lc fc (NewQueryBuilder t) = Inl NilMapAssignment"
  by (simp add: LeftJoin_def Header_def Join_def NewQueryBuilder_def)

lemma Header_made_map:
  "headers q = Some h \<Longrightarrow> Header key v q = Inr (q\<lparr>headers := Some (h(key \<mapsto> v))\<rparr>)"
  by (simp add: Header_def)

section \<open>Filters\<close>

text \<open>
  C6. \<^verbatim>\<open>Where\<close> (or \<^verbatim>\<open>Filter\<close>) with a slice \<open>v1..vn\<close> as value appends
  \<open><column>.<operator>.(v1,v2,...,vn)\<close>. The code formats the value with
  \<^verbatim>\<open>%v\<close>, which prints the slice 1, 2, 3 as \<open>[1 2 3]\<close>.
\<close>

theorem Where_slice_rendering:
  "filters (Where ''id'' ''in'' (VSlice [VInt 1, VInt 2, VInt 3]) (NewQueryBuilder ''users''))
     = [''id.in.[1 2 3]''] \<and>
   filters (Filter ''id'' ''in'' (VSlice [VInt 1, VInt 2, VInt 3]) (NewQueryBuilder ''users''))
     = [''id.in.[1 2 3]'']"
  by (simp add: Filter_def Where_def NewQueryBuilder_def fmt_d_def nat_dec.simps digit_char_def)

lemma Where_appends_one:
  "filters (Where column op v q) = filters q @ [column @ ''.'' @ op @ ''.'' @ fmt_v v]"
  by (simp add: Where_def)

section \<open>BuildURL\<close>

lemma foldl_snoc: "foldl (\<lambda>ps f. ps @ [f]) params fs = params @ fs"
  by (induction fs arbitrary: params) simp_all

lemma BuildURL_params:
  assumes "\<forall>f \<in> set (filters q). f \<noteq> []"
  shows "BuildURL q = BuildURL_spec q"
proof -
  from assms have "filter (\<lambda>f. f \<noteq> []) (filters q) = filters q"
    by (simp add: filter_id_conv)
  then show ?thesis
    by (simp add: BuildURL_def BuildURL_spec_def fragments_def Let_def foldl_snoc)
qed

lemma accumulated_filters: "accumulated q \<Longrightarrow> \<forall>f \<in> set (filters q). f \<noteq> []"
proof (induction rule: accumulated.induct)
  case (acc_Header q key v q')
  then show ?case by (auto simp: Header_def split: option.splits)
next
  case (acc_LeftJoin q ft lc fc q')
  then show ?case by (auto simp: LeftJoin_def Header_def Join_def split: option.splits)
qed (auto simp: NewQueryBuilder_def From_def Select_def Where_def OrWhere_def WhereRaw_def
      Order_def Limit_def Offset_def Range_q_def Join_def InnerJoin_def Raw_def Count_def
      Single_def Filter_def Or_def And_def Not_q_def ForeignTable_def)

text \<open>
  C8. For every accumulated builder state, \<^verbatim>\<open>BuildURL\<close> returns \<open>/\<close> and the
  table, followed, only when some fragment is not empty, by \<open>?\<close> and the non-empty
  fragments joined by \<open>&\<close> in the order select, filters (as inserted), order, limit,
  offset, count.
\<close>

theorem BuildURL_accumulated: "accumulated q \<Longrightarrow> BuildURL q = BuildURL_spec q"
  by (rule BuildURL_params) (rule accumulated_filters)


theorem BuildURL_accumulated_witness:
  "accumulated (Limit 10 (Filter ''age'' ''gte'' (VInt 18) (Select [''id'', ''name''] (NewQueryBuilder ''users''))))
   \<and> BuildURL (Limit 10 (Filter ''age'' ''gte'' (VInt 18) (Select [''id'', ''name''] (NewQueryBuilder ''users''))))
     = ''/users?id,name&age.gte.18&limit=10''
   \<and> accumulated (NewQueryBuilder ''users'') \<and> BuildURL (NewQueryBuilder ''users'') = ''/users''"
proof -
  have a: "accumulated (Limit 10 (Filter ''age'' ''gte'' (VInt 18) (Select [''id'', ''name''] (NewQueryBuilder ''users''))))"
    by (intro acc_Limit acc_Filter acc_Select acc_NewQueryBuilder)
  have b: "accumulated (NewQueryBuilder ''users'')"
    by (rule acc_NewQueryBuilder)
  show ?thesis
    using a b BuildURL_accumulated [OF a] BuildURL_accumulated [OF b]
    by (simp add: BuildURL_spec_def fragments_def Limit_def Filter_def Where_def
      Select_def NewQueryBuilder_def fmt_d_def nat_dec.simps digit_char_def)
qed


section \<open>The terminal operations\<close>

lemma calls_of_respond [simp]: "res_calls (respond env q result data call) = [call]"
  by (simp add: respond_def unmarshal_response_def split: sum.splits option.splits prod.splits)

lemma execute_nil_client: "client q = None \<Longrightarrow> execute env q result = Inl NilPointerDereference"
  by (simp add: execute_def)

lemma execute_raw:
  assumes "rawQuery q \<noteq> []" and "client q = Some c"
  shows "calls_of (execute env q result) = Inr [raw_call env q c]"
  using assms by (simp add: execute_def calls_of_def raw_call_def Let_def GetBaseURL_def)

lemma req_query_SetHeader [simp]: "req_query (SetHeader env k v r) = req_query r"
  by (simp add: SetHeader_def)

lemma req_body_SetHeader [simp]: "req_body (SetHeader env k v r) = req_body r"
  by (simp add: SetHeader_def)

lemma req_query_fold_SetHeader:
  "req_query (foldl (\<lambda>req (k, v). SetHeader env k v req) r kvs) = req_query r"
  by (induction kvs arbitrary: r) (simp_all add: case_prod_beta)

lemma req_query_set_custom_headers [simp]:
  "req_query (set_custom_headers env hs r) = req_query r"
  by (simp add: set_custom_headers_def req_query_fold_SetHeader split: option.splits)

text \<open>
  On a builder bound to a client, a raw query makes one round trip through
  \<^verbatim>\<open>execute\<close> and the five terminal operations built on it: a POST to
  \<open>rpc/execute_sql\<close> under the base URL with the body \<open>{"query": <raw text>}\<close>, on the
  fresh request with the custom headers, whatever select, filters, order, limit, offset
  and joins have been accumulated; no query parameter is added to it.
\<close>

lemma raw_query_request_bound:
  assumes "rawQuery q \<noteq> []" and "client q = Some c"
  shows "calls_of (execute env q result) = Inr [raw_call env q c]
       \<and> calls_of (Get env q result) = Inr [raw_call env q c]
       \<and> calls_of (First env q result) = Inr [raw_call env q c]
       \<and> calls_of (Insert env q result) = Inr [raw_call env q c]
       \<and> calls_of (Update env q result) = Inr [raw_call env q c]
       \<and> calls_of (Delete env q) = Inr [raw_call env q c]
       \<and> req_query (call_req (raw_call env q c)) = req_query (RawRequest env c)"
proof -
  have 1: "calls_of (execute env q result) = Inr [raw_call env q c]"
    using assms by (rule execute_raw)
  have 2: "calls_of (First env q result) = Inr [raw_call env q c]"
    using assms execute_raw [of "Limit 1 q" c env result]
    by (simp add: First_def Limit_def raw_call_def)
  have 3: "calls_of (Insert env q result) = Inr [raw_call env q c]"
    using assms execute_raw [of "q\<lparr>http_method := ''POST''\<rparr>" c env result]
    by (simp add: Insert_def raw_call_def)
  have 4: "calls_of (Update env q result) = Inr [raw_call env q c]"
    using assms execute_raw [of "q\<lparr>http_method := ''PATCH''\<rparr>" c env result]
    by (simp add: Update_def raw_call_def)
  have 5: "calls_of (Delete env q) = Inr [raw_call env q c]"
    using assms execute_raw [of "q\<lparr>http_method := ''DELETE''\<rparr>" c env None]
    by (simp add: Delete_def raw_call_def)
  have 6: "req_query (call_req (raw_call env q c)) = req_query (RawRequest env c)"
    by (simp add: raw_call_def SetBody_def)
  from 1 2 3 4 5 6 show ?thesis by (simp add: Get_def)
qed

lemma raw_query_request_bound_example:
  "calls_of (Get env
        ((Limit 5 (Where ''age'' ''gt'' (VInt 18) (Raw ''SELECT 1'' (NewQueryBuilder ''users''))))
           \<lparr>client := Some (NewClient ''http://db'' ''key'')\<rparr>) (Some d))
     = Inr [\<lparr>call_method = ''POST'', call_url = ''http://db/rest/v1/rpc/execute_sql'',
             call_req = SetBody (Some (SqlRequest ''SELECT 1''))
                          (RawRequest env (NewClient ''http://db'' ''key''))\<rparr>]"
  using raw_query_request_bound
    [of "(Limit 5 (Where ''age'' ''gt'' (VInt 18) (Raw ''SELECT 1'' (NewQueryBuilder ''users''))))
           \<lparr>client := Some (NewClient ''http://db'' ''key'')\<rparr>"
        "NewClient ''http://db'' ''key''" env "Some d"]
  by (simp add: raw_call_def Limit_def Where_def Raw_def NewQueryBuilder_def
      NewClient_def set_custom_headers_def)

lemma accumulated_client: "accumulated q \<Longrightarrow> client q = None"
proof (induction rule: accumulated.induct)
  case (acc_Header q key v q')
  then show ?case by (auto simp: Header_def split: option.splits)
next
  case (acc_LeftJoin q ft lc fc q')
  then show ?case by (auto simp: LeftJoin_def Header_def Join_def split: option.splits)
qed (auto simp: NewQueryBuilder_def From_def Select_def Where_def OrWhere_def WhereRaw_def
      Order_def Limit_def Offset_def Range_q_def Join_def InnerJoin_def Raw_def Count_def
      Single_def Filter_def Or_def And_def Not_q_def ForeignTable_def)

lemma accumulated_terminal_panics:
  assumes "accumulated q"
  shows "Get env q result = Inl NilPointerDereference
       \<and> First env q result = Inl NilPointerDereference
       \<and> Insert env q result = Inl NilPointerDereference
       \<and> Update env q result = Inl NilPointerDereference
       \<and> Delete env q = Inl NilPointerDereference"
  using accumulated_client [OF assms]
  by (simp add: Get_def First_def Insert_def Update_def Delete_def Limit_def execute_def)

text \<open>
  C7. With a raw-query override set, the terminal operation targets the fixed
  \<open>rpc/execute_sql\<close> endpoint under the base URL, forces the method to POST, sends the
  body \<open>{"query": <raw text>}\<close> and emits no select, filter, order, limit, offset or join
  data as query parameters. On the builder of \<^verbatim>\<open>Client.From\<close> with
  \<^verbatim>\<open>Raw("SELECT 1")\<close> the client reference is nil: \<^verbatim>\<open>Get\<close>,
  \<^verbatim>\<open>First\<close>, \<^verbatim>\<open>Insert\<close>, \<^verbatim>\<open>Update\<close> and \<^verbatim>\<open>Delete\<close> panic
  before any request is made, and \<^verbatim>\<open>Execute\<close> makes no round trip at all, also
  when a client is put into the builder.
\<close>

theorem raw_query_unbound_client:
  "Get env (Raw ''SELECT 1'' (From (NewClient ''http://db'' ''key'') ''users'')) (Some d)
     = Inl NilPointerDereference
   \<and> First env (Raw ''SELECT 1'' (From (NewClient ''http://db'' ''key'') ''users'')) (Some d)
     = Inl NilPointerDereference
   \<and> Insert env (Raw ''SELECT 1'' (From (NewClient ''http://db'' ''key'') ''users'')) (Some d)
     = Inl NilPointerDereference
   \<and> Update env (Raw ''SELECT 1'' (From (NewClient ''http://db'' ''key'') ''users'')) (Some d)
     = Inl NilPointerDereference
   \<and> Delete env (Raw ''SELECT 1'' (From (NewClient ''http://db'' ''key'') ''users''))
     = Inl NilPointerDereference
   \<and> calls_of (Execute env (Raw ''SELECT 1'' (From (NewClient ''http://db'' ''key'') ''users''))
        (Some d)) = Inr []
   \<and> calls_of (Execute env
        ((Raw ''SELECT 1'' (NewQueryBuilder ''users''))\<lparr>client := Some c\<rparr>) (Some d)) = Inr []"
  by (simp add: Get_def First_def Insert_def Update_def Delete_def Execute_def execute_def
      calls_of_def Limit_def Raw_def From_def NewQueryBuilder_def)

lemma queryParams_Limit: "queryParams (Limit n q) ''limit'' = Some [''limit='' @ fmt_d n]"
  by (simp add: queryParams_def Limit_def Let_def values_Set_def)

lemma queryParams_Offset: "queryParams (Offset n q) ''offset'' = Some [''offset='' @ fmt_d n]"
  by (simp add: queryParams_def Offset_def Let_def values_Set_def)

lemma queryParams_Order:
  "queryParams (Order column direction q) ''order'' = Some [''order='' @ column @ ''.'' @ direction]"
  by (simp add: queryParams_def Order_def Let_def values_Set_def)

text \<open>
  C9. Without a raw query, after \<^verbatim>\<open>Limit(n)\<close> the serialization emits the query
  parameter with key \<open>limit\<close> and the decimal rendering of \<open>n\<close> as value (and the same
  for \<^verbatim>\<open>Offset\<close> and \<^verbatim>\<open>Order\<close>). The code stores \<open>limit=<n>\<close> and sets
  the whole of it as the value: after \<^verbatim>\<open>Order("id", "desc")\<close>, \<^verbatim>\<open>Limit(10)\<close>
  and \<^verbatim>\<open>Offset(0)\<close> the values are \<open>order=id.desc\<close>, \<open>limit=10\<close> and
  \<open>offset=0\<close>, not \<open>id.desc\<close>, \<open>10\<close> and \<open>0\<close>.
\<close>

theorem limit_parameter_value:
  "calls_of (Delete env ((Offset 0 (Limit 10 (Order ''id'' ''desc'' (NewQueryBuilder ''users''))))
                           \<lparr>client := Some c\<rparr>))
     = Inr [\<lparr>call_method = ''DELETE'', call_url = baseURL c @ ''/rest/v1/users'',
             call_req = SetQueryParamsFromValues
                          [''order'' \<mapsto> [''order=id.desc''], ''limit'' \<mapsto> [''limit=10''],
                           ''offset'' \<mapsto> [''offset=0'']]
                          (RawRequest env c)\<rparr>]"
  by (simp add: Delete_def execute_def calls_of_def Let_def GetBaseURL_def queryParams_def
      Offset_def Limit_def Order_def NewQueryBuilder_def values_Set_def set_custom_headers_def
      fmt_d_def nat_dec.simps digit_char_def)

lemma Get_with_method_GET:
  assumes "client q = Some c" and "rawQuery q = []" and "http_method q = ''GET''"
    and "call = \<lparr>call_method = ''GET'', call_url = baseURL c @ ''/rest/v1/'' @ table q,
           call_req = SetQueryParamsFromValues (queryParams q)
             ((if rangeQuery q \<noteq> [] then SetHeader env ''Range'' (rangeQuery q) else id)
                (set_custom_headers env (headers q) (RawRequest env c)))\<rparr>"
    and "transport env call = Inr resp" and "\<not> resp_is_error resp"
  shows "Get env q (Some d) =
           Inr \<lparr>res_err = fst (Unmarshal env (resp_body resp) d),
                res_dest = Some (snd (Unmarshal env (resp_body resp) d)),
                res_calls = [call], res_builder = q\<rparr>"
proof (cases "rangeQuery q = []")
  case True
  with assms show ?thesis
    by (simp add: Get_def execute_def Let_def GetBaseURL_def respond_def unmarshal_response_def
        json_Unmarshal_def caller_value_def split: prod.splits)
next
  case False
  with assms show ?thesis
    by (simp add: Get_def execute_def Let_def GetBaseURL_def respond_def unmarshal_response_def
        json_Unmarshal_def caller_value_def split: prod.splits)
qed

text \<open>
  C1. Without a raw query, \<^verbatim>\<open>Get(dest)\<close> dispatches with the method GET and decodes
  the body of a success response into \<open>dest\<close>. \<^verbatim>\<open>Get\<close> leaves the method field as
  it finds it, and no constructor sets it: on the builder of \<^verbatim>\<open>Client.From\<close> the call
  panics on the nil client, and on the builder of \<^verbatim>\<open>NewQueryBuilder\<close> with a client
  put in, it makes no round trip and returns the unsupported-method error.
\<close>

theorem Get_without_method:
  "Get env (From (NewClient ''http://db'' ''key'') ''users'') (Some d) = Inl NilPointerDereference \<and>
   Get env ((NewQueryBuilder ''users'')\<lparr>client := Some c\<rparr>) (Some d)
     = Inr \<lparr>res_err = Some (Errorf ''unsupported HTTP method: ''), res_dest = Some d, res_calls = [],
            res_builder = (NewQueryBuilder ''users'')\<lparr>client := Some c\<rparr>\<rparr>"
  by (simp add: Get_def execute_def From_def NewQueryBuilder_def Let_def)

lemma Execute_never_Get: "Execute env q result \<noteq> Get env q result"
proof (cases "client q")
  case None
  then show ?thesis by (simp add: Execute_def Get_def execute_def)
next
  case (Some c)
  have "calls_of (Get env q result) \<noteq> Inr [] \<or> (\<exists>r. Get env q result = Inr r \<and> res_err r \<noteq> None)"
    using Some by (simp add: Get_def execute_def calls_of_def Let_def)
  moreover have "calls_of (Execute env q result) = Inr []"
    by (simp add: Execute_def calls_of_def)
  moreover have "\<forall>r. Execute env q result = Inr r \<longrightarrow> res_err r = None"
    by (auto simp add: Execute_def)
  ultimately show ?thesis by metis
qed

text \<open>
  C3. \<^verbatim>\<open>Execute(dest)\<close> behaves as \<^verbatim>\<open>Get(dest)\<close>: the same request, the same
  error result, the same final \<open>dest\<close>. On the builder of the repository's own test of
  \<^verbatim>\<open>Execute\<close> (\<^verbatim>\<open>From("users")\<close>, \<^verbatim>\<open>Select("id", "name")\<close>,
  \<^verbatim>\<open>Filter("age", "gt", 18)\<close>), \<^verbatim>\<open>Execute\<close> returns nil with no round trip and
  \<open>dest\<close> untouched, and \<^verbatim>\<open>Get\<close> panics.
\<close>

theorem Execute_differs_from_Get:
  "Execute env (Filter ''age'' ''gt'' (VInt 18) (Select [''id'', ''name'']
       (From (NewClient ''http://db'' ''key'') ''users''))) (Some d)
     = Inr \<lparr>res_err = None, res_dest = Some d, res_calls = [],
            res_builder = Filter ''age'' ''gt'' (VInt 18) (Select [''id'', ''name'']
              (From (NewClient ''http://db'' ''key'') ''users''))\<rparr>
   \<and> Get env (Filter ''age'' ''gt'' (VInt 18) (Select [''id'', ''name'']
       (From (NewClient ''http://db'' ''key'') ''users''))) (Some d)
     = Inl NilPointerDereference"
  by (simp add: Execute_def Get_def execute_def Filter_def Where_def Select_def From_def
      NewQueryBuilder_def)

section \<open>Remote procedures\<close>

text \<open>
  C2. \<^verbatim>\<open>Client.RPC\<close> POSTs the parameter map as JSON to the procedure endpoint, makes
  one round trip and decodes the response into the result destination. The code returns
  nil at once: no round trip, the destination as it was.
\<close>

theorem RPC_returns_at_once:
  "RPC env c procedure params (Some d) = (None, Some d, []) \<and>
   RPC env (NewClient ''http://db'' ''key'') ''get_user_by_id'' [''user_id'' \<mapsto> VInt 1] result
     = (None, result, [])"
  by (simp add: RPC_def)

end
